theory Spec2Isabelle
  imports Complex_Main "HOL-Library.AList"
begin

section \<open>Radar display: message processing and the WebSocket worker of main.py\<close>

text \<open>
  The development embeds \<^verbatim>\<open>src/main.py\<close>. Python floats are represented by the
  reals (rounding, infinities and NaN are not represented), Python's unbounded
  integers by \<^typ>\<open>int\<close>, and a \<^verbatim>\<open>QPoint\<close> by the two integers it is
  constructed from (the 32-bit range of Qt's coordinates is not represented).
\<close>

subsection \<open>Values produced by json.loads\<close>

text \<open>
  The Python objects that \<^verbatim>\<open>json.loads\<close> builds: \<^verbatim>\<open>None\<close>, \<^verbatim>\<open>bool\<close>,
  \<^verbatim>\<open>int\<close>, \<^verbatim>\<open>float\<close>, \<^verbatim>\<open>str\<close>, \<^verbatim>\<open>list\<close> and \<^verbatim>\<open>dict\<close>. A dict is
  an association list with distinct keys, read with \<^const>\<open>map_of\<close>.
\<close>

datatype json =
    JNull
  | JBool bool
  | JInt int
  | JFloat real
  | JString string
  | JArray "json list"
  | JObject "(string \<times> json) list"

type_synonym WebSocketResponse = "(string \<times> json) list"

text \<open>The exceptions that the body of \<^verbatim>\<open>process_message\<close> can raise.\<close>

datatype py_error = KeyError | IndexError | TypeError

text \<open>Truth value of an object, as \<^verbatim>\<open>if obj:\<close> tests it.\<close>

fun truthy :: "json \<Rightarrow> bool" where
  "truthy JNull = False"
| "truthy (JBool b) = b"
| "truthy (JInt n) = (n \<noteq> 0)"
| "truthy (JFloat r) = (r \<noteq> 0)"
| "truthy (JString s) = (s \<noteq> [])"
| "truthy (JArray xs) = (xs \<noteq> [])"
| "truthy (JObject kvs) = (kvs \<noteq> [])"

text \<open>\<^verbatim>\<open>d.get(k)\<close> on a dict: \<^verbatim>\<open>None\<close> for a missing key.\<close>

definition dict_get :: "(string \<times> json) list \<Rightarrow> string \<Rightarrow> json" where
  "dict_get d k = (case map_of d k of None \<Rightarrow> JNull | Some v \<Rightarrow> v)"

text \<open>\<^verbatim>\<open>d[k]\<close> on a dict: \<^verbatim>\<open>KeyError\<close> for a missing key.\<close>

definition dict_item :: "(string \<times> json) list \<Rightarrow> string \<Rightarrow> py_error + json" where
  "dict_item d k = (case map_of d k of None \<Rightarrow> Inl KeyError | Some v \<Rightarrow> Inr v)"

text \<open>
  \<^verbatim>\<open>obj[0]\<close>: the first element of a list, the first character of a string,
  \<^verbatim>\<open>KeyError\<close> on a dict (the keys of a decoded object are strings),
  \<^verbatim>\<open>TypeError\<close> on everything else.
\<close>

fun item_0 :: "json \<Rightarrow> py_error + json" where
  "item_0 (JArray []) = Inl IndexError"
| "item_0 (JArray (x # xs)) = Inr x"
| "item_0 (JString []) = Inl IndexError"
| "item_0 (JString (c # cs)) = Inr (JString [c])"
| "item_0 (JObject kvs) = Inl KeyError"
| "item_0 _ = Inl TypeError"

text \<open>\<^verbatim>\<open>obj[k]\<close> with a string key: only a dict accepts it.\<close>

fun item_key :: "json \<Rightarrow> string \<Rightarrow> py_error + json" where
  "item_key (JObject kvs) k = dict_item kvs k"
| "item_key _ k = Inl TypeError"

text \<open>
  The value of an object used as a number in float arithmetic and by
  \<^verbatim>\<open>math.radians\<close>: \<^verbatim>\<open>int\<close>, \<^verbatim>\<open>float\<close> and \<^verbatim>\<open>bool\<close> are numbers. Every other
  operand ends in \<^verbatim>\<open>TypeError\<close> (a string or a list is repeated by \<^verbatim>\<open>* 300_000\<close>
  and then refused by \<^verbatim>\<open>/ 2\<close>).
\<close>

fun number :: "json \<Rightarrow> py_error + real" where
  "number (JInt n) = Inr (of_int n)"
| "number (JFloat r) = Inr r"
| "number (JBool b) = Inr (of_bool b)"
| "number _ = Inl TypeError"

definition radians :: "real \<Rightarrow> real" where
  "radians a = a * pi / 180"

text \<open>\<^verbatim>\<open>int(x)\<close> on a float truncates towards zero.\<close>

definition py_int :: "real \<Rightarrow> int" where
  "py_int x = (if 0 \<le> x then \<lfloor>x\<rfloor> else \<lceil>x\<rceil>)"

subsection \<open>RadarWidget\<close>

record QPoint =
  x_coord :: int
  y_coord :: int

record RadarWidget =
  angle :: json
  dot_position :: QPoint
  dot_visible :: bool
  update_requests :: nat

text \<open>
  \<^verbatim>\<open>RadarWidget.__init__\<close>. The field \<^const>\<open>update_requests\<close> counts the calls of
  \<^verbatim>\<open>self.update()\<close>.
\<close>

definition RadarWidget_init :: RadarWidget where
  "RadarWidget_init =
     \<lparr>angle = JInt 0, dot_position = \<lparr>x_coord = 150, y_coord = 150\<rparr>,
      dot_visible = False, update_requests = 0\<rparr>"

definition update_radar_data :: "RadarWidget \<Rightarrow> json \<Rightarrow> QPoint \<Rightarrow> RadarWidget" where
  "update_radar_data w a p =
     w\<lparr>angle := a, dot_position := p, dot_visible := True,
       update_requests := Suc (update_requests w)\<rparr>"

subsection \<open>RadarWindow\<close>

datatype console_line =
    Error_processing_message py_error
  | WebSocket_Connected
  | WebSocket_Disconnected

record RadarWindow =
  radar_widget :: RadarWidget
  console :: "console_line list"

definition RadarWindow_init :: RadarWindow where
  "RadarWindow_init = \<lparr>radar_widget = RadarWidget_init, console = []\<rparr>"

text \<open>
  \<^verbatim>\<open>relative_distance = ((json_object["echoResponses"][0]["time"] * 300_000) / 2) / 200\<close>
\<close>

definition relative_distance :: "real \<Rightarrow> real" where
  "relative_distance t = ((t * 300000) / 2) / 200"

definition x_of :: "real \<Rightarrow> real \<Rightarrow> real" where
  "x_of t a = relative_distance t * 150 * cos (radians a) + 150"

definition y_of :: "real \<Rightarrow> real \<Rightarrow> real" where
  "y_of t a = relative_distance t * 150 * sin (radians a) + 150"

text \<open>
  The body of the \<^verbatim>\<open>try\<close> of \<^verbatim>\<open>process_message\<close>, up to the arguments of the call
  of \<^verbatim>\<open>update_radar_data\<close>: \<open>Inl\<close> is the exception raised, \<open>Inr None\<close> the
  skipped \<^verbatim>\<open>if\<close>, \<open>Inr (Some (angle, point))\<close> the call. The statements are
  evaluated in the order of the source.
\<close>

definition radar_update :: "WebSocketResponse \<Rightarrow> py_error + (json \<times> QPoint) option" where
  "radar_update json_object =
     (if truthy (dict_get json_object ''echoResponses'') then
        (case dict_item json_object ''scanAngle'' of
           Inl e \<Rightarrow> Inl e
         | Inr angle_obj \<Rightarrow>
        (case dict_item json_object ''echoResponses'' of
           Inl e \<Rightarrow> Inl e
         | Inr echoes \<Rightarrow>
        (case item_0 echoes of
           Inl e \<Rightarrow> Inl e
         | Inr echo \<Rightarrow>
        (case item_key echo ''time'' of
           Inl e \<Rightarrow> Inl e
         | Inr time_obj \<Rightarrow>
        (case number time_obj of
           Inl e \<Rightarrow> Inl e
         | Inr t \<Rightarrow>
        (case number angle_obj of
           Inl e \<Rightarrow> Inl e
         | Inr a \<Rightarrow>
             Inr (Some (angle_obj,
               \<lparr>x_coord = py_int (x_of t a), y_coord = py_int (y_of t a)\<rparr>))))))))
      else Inr None)"

definition process_message :: "RadarWindow \<Rightarrow> WebSocketResponse \<Rightarrow> RadarWindow" where
  "process_message win json_object =
     (case radar_update json_object of
        Inl e \<Rightarrow> win\<lparr>console := console win @ [Error_processing_message e]\<rparr>
      | Inr None \<Rightarrow> win
      | Inr (Some (a, p)) \<Rightarrow>
          win\<lparr>radar_widget := update_radar_data (radar_widget win) a p\<rparr>)"

definition handle_connection :: "RadarWindow \<Rightarrow> bool \<Rightarrow> RadarWindow" where
  "handle_connection win status =
     win\<lparr>console := console win @
       [if status then WebSocket_Connected else WebSocket_Disconnected]\<rparr>"

subsection \<open>WebSocketWorker\<close>

text \<open>
  The coroutine \<^verbatim>\<open>websocket_client\<close> is a transition system over the points where
  it is suspended: in \<^verbatim>\<open>websockets.connect\<close>, in \<^verbatim>\<open>websocket.recv\<close> and in
  \<^verbatim>\<open>asyncio.sleep\<close>. An event is the outcome of the awaited operation, or a call
  of \<^verbatim>\<open>stop\<close> from the window's thread. A step runs the coroutine up to its next
  suspension and returns what it did on the way.

  A received message is classified by what \<^verbatim>\<open>json.loads\<close> does with it: it raises
  (\<open>Not_json\<close>) or it returns a dict. Messages that decode to something other than
  a dict are not represented, since what \<^verbatim>\<open>Signal(dict).emit\<close> does with them is
  decided by the Qt binding.
\<close>

datatype frame = Not_json | Json_object WebSocketResponse

text \<open>
  \<open>Connect_ok\<close> and \<open>Connect_fails\<close> end \<^verbatim>\<open>websockets.connect\<close> (the second with any
  exception); \<open>Recv_message\<close>, \<open>Recv_ConnectionClosed\<close> and \<open>Recv_raises\<close> (any
  other exception) end \<^verbatim>\<open>websocket.recv\<close>; \<open>Sleep_done\<close> ends \<^verbatim>\<open>asyncio.sleep(5)\<close>.
  The actions are the connection attempt, the two signals, the \<^verbatim>\<open>print\<close> of the
  handler, the start of the sleep with its duration in seconds, and the end of the
  session when control leaves the \<^verbatim>\<open>async with\<close> block.
\<close>

datatype event =
    Connect_ok
  | Connect_fails
  | Recv_message frame
  | Recv_ConnectionClosed
  | Recv_raises
  | Sleep_done
  | Stop_called

datatype action =
    Connect
  | Emit_connection_status bool
  | Emit_message_received WebSocketResponse
  | Print_connection_error
  | Sleep nat
  | Session_closed

datatype control = Not_started | Awaiting_connect | Awaiting_recv | Awaiting_sleep | Returned

record WebSocketWorker =
  running :: bool
  control :: control

definition WebSocketWorker_init :: WebSocketWorker where
  "WebSocketWorker_init = \<lparr>running = False, control = Not_started\<rparr>"

definition stop :: "WebSocketWorker \<Rightarrow> WebSocketWorker" where
  "stop w = w\<lparr>running := False\<rparr>"

text \<open>The head of the outer \<^verbatim>\<open>while self.running\<close>: a new connection attempt, or the end.\<close>

definition outer_loop :: "WebSocketWorker \<Rightarrow> WebSocketWorker \<times> action list" where
  "outer_loop w =
     (if running w then (w\<lparr>control := Awaiting_connect\<rparr>, [Connect])
      else (w\<lparr>control := Returned\<rparr>, []))"

text \<open>
  Leaving the \<^verbatim>\<open>async with\<close> block without an exception (after \<^verbatim>\<open>break\<close>, or when
  the inner loop's test fails): the session is closed and control is back at the head
  of the outer loop.
\<close>

definition leave_session :: "WebSocketWorker \<Rightarrow> WebSocketWorker \<times> action list" where
  "leave_session w = (case outer_loop w of (w', acts) \<Rightarrow> (w', Session_closed # acts))"

text \<open>The head of the inner \<^verbatim>\<open>while self.running\<close>.\<close>

definition inner_loop :: "WebSocketWorker \<Rightarrow> WebSocketWorker \<times> action list" where
  "inner_loop w =
     (if running w then (w\<lparr>control := Awaiting_recv\<rparr>, []) else leave_session w)"

text \<open>
  The handler \<^verbatim>\<open>except Exception\<close> of the outer \<^verbatim>\<open>try\<close>. An exception that
  leaves the \<^verbatim>\<open>async with\<close> block closes the session first.
\<close>

definition except_Exception :: "WebSocketWorker \<Rightarrow> bool \<Rightarrow> WebSocketWorker \<times> action list" where
  "except_Exception w in_session =
     (w\<lparr>control := Awaiting_sleep\<rparr>,
      (if in_session then [Session_closed] else []) @
      [Print_connection_error, Emit_connection_status False, Sleep 5])"

fun websocket_client_step ::
  "WebSocketWorker \<Rightarrow> event \<Rightarrow> (WebSocketWorker \<times> action list) option" where
  "websocket_client_step w Stop_called = Some (stop w, [])"
| "websocket_client_step w Connect_ok =
     (if control w = Awaiting_connect then
        (case inner_loop w of (w', acts) \<Rightarrow> Some (w', Emit_connection_status True # acts))
      else None)"
| "websocket_client_step w Connect_fails =
     (if control w = Awaiting_connect then Some (except_Exception w False) else None)"
| "websocket_client_step w (Recv_message Not_json) =
     (if control w = Awaiting_recv then Some (except_Exception w True) else None)"
| "websocket_client_step w (Recv_message (Json_object json_data)) =
     (if control w = Awaiting_recv then
        (case inner_loop w of (w', acts) \<Rightarrow> Some (w', Emit_message_received json_data # acts))
      else None)"
| "websocket_client_step w Recv_ConnectionClosed =
     (if control w = Awaiting_recv then Some (leave_session w) else None)"
| "websocket_client_step w Recv_raises =
     (if control w = Awaiting_recv then Some (except_Exception w True) else None)"
| "websocket_client_step w Sleep_done =
     (if control w = Awaiting_sleep then Some (outer_loop w) else None)"

text \<open>\<^verbatim>\<open>start_websocket\<close> sets the flag and enters the coroutine.\<close>

definition start_websocket :: "WebSocketWorker \<Rightarrow> WebSocketWorker \<times> action list" where
  "start_websocket w = outer_loop (w\<lparr>running := True\<rparr>)"

text \<open>
  The coroutine run against a finite script of events. \<open>None\<close> marks a script
  that offers an event the coroutine is not waiting for.
\<close>

fun websocket_client ::
  "WebSocketWorker \<Rightarrow> event list \<Rightarrow> (WebSocketWorker \<times> action list) option" where
  "websocket_client w [] = Some (w, [])"
| "websocket_client w (ev # evs) =
     (case websocket_client_step w ev of
        None \<Rightarrow> None
      | Some (w', acts) \<Rightarrow>
          (case websocket_client w' evs of
             None \<Rightarrow> None
           | Some (w'', acts') \<Rightarrow> Some (w'', acts @ acts')))"

text \<open>
  The signals reach the slots of the window in the order of their emission; the other
  actions of the worker do not touch the window.
\<close>

fun deliver :: "RadarWindow \<Rightarrow> action \<Rightarrow> RadarWindow" where
  "deliver win (Emit_message_received json_data) = process_message win json_data"
| "deliver win (Emit_connection_status status) = handle_connection win status"
| "deliver win _ = win"

text \<open>The worker once \<^verbatim>\<open>start_websocket\<close> has begun the first connection attempt.\<close>

definition started :: WebSocketWorker where
  "started = \<lparr>running = True, control = Awaiting_connect\<rparr>"

subsection \<open>The scan report of the specification\<close>

text \<open>
  The data model of the specification, section 3, over the wire names of section 6:
  \<open>scanAngle\<close> is an integer in \<open>[0, 360)\<close>, \<open>pulseDuration\<close> an integer that is
  not negative, every echo has a \<open>time\<close> that is not negative and a \<open>power\<close> in
  \<open>[0, 1]\<close>. The source has no function that checks this; the predicate only names
  the reports that the specification calls valid.
\<close>

fun json_number :: "json \<Rightarrow> real option" where
  "json_number (JInt n) = Some (of_int n)"
| "json_number (JFloat r) = Some r"
| "json_number _ = None"

fun valid_echo :: "json \<Rightarrow> bool" where
  "valid_echo (JObject kv) =
     (case map_of kv ''time'' of
        None \<Rightarrow> False
      | Some tobj \<Rightarrow>
     (case json_number tobj of
        None \<Rightarrow> False
      | Some t \<Rightarrow>
     (case map_of kv ''power'' of
        None \<Rightarrow> False
      | Some pobj \<Rightarrow>
     (case json_number pobj of
        None \<Rightarrow> False
      | Some p \<Rightarrow> 0 \<le> t \<and> 0 \<le> p \<and> p \<le> 1))))"
| "valid_echo _ = False"

fun valid_angle :: "json \<Rightarrow> bool" where
  "valid_angle (JInt a) = (0 \<le> a \<and> a < 360)"
| "valid_angle _ = False"

fun valid_duration :: "json \<Rightarrow> bool" where
  "valid_duration (JInt d) = (0 \<le> d)"
| "valid_duration _ = False"

fun valid_echoes :: "json \<Rightarrow> bool" where
  "valid_echoes (JArray es) = list_all valid_echo es"
| "valid_echoes _ = False"

definition valid_report :: "WebSocketResponse \<Rightarrow> bool" where
  "valid_report obj =
     (valid_angle (dict_get obj ''scanAngle'') \<and>
      valid_duration (dict_get obj ''pulseDuration'') \<and>
      valid_echoes (dict_get obj ''echoResponses''))"

subsection \<open>The scenarios of the specification\<close>

text \<open>
  Scenario A is \<^verbatim>\<open>{scanAngle: 0, pulseDuration: 10, echoResponses: [{time: 0.001,
  power: 0.5}]}\<close>, scenario B is \<^verbatim>\<open>{scanAngle: 90, pulseDuration: 5, echoResponses:
  []}\<close>, and scenario D is the message of scenario A without its \<open>scanAngle\<close>.
\<close>

definition echo_of :: "real \<Rightarrow> real \<Rightarrow> json" where
  "echo_of t p = JObject [(''time'', JFloat t), (''power'', JFloat p)]"

definition report_of :: "json \<Rightarrow> int \<Rightarrow> json list \<Rightarrow> WebSocketResponse" where
  "report_of a d es =
     [(''scanAngle'', a), (''pulseDuration'', JInt d), (''echoResponses'', JArray es)]"

definition scenario_A :: WebSocketResponse where
  "scenario_A = report_of (JInt 0) 10 [echo_of (1 / 1000) (1 / 2)]"

definition scenario_B :: WebSocketResponse where
  "scenario_B = report_of (JInt 90) 5 []"

definition scenario_D :: WebSocketResponse where
  "scenario_D =
     [(''pulseDuration'', JInt 10), (''echoResponses'', JArray [echo_of (1 / 1000) (1 / 2)])]"

text \<open>
  Three more messages: an echo beyond the maximal range (range fraction 1.5), the
  message of scenario A with the angle 360, and with an angle that is not a number.
\<close>

definition scenario_beyond :: WebSocketResponse where
  "scenario_beyond = report_of (JInt 0) 10 [echo_of (1 / 500) (1 / 2)]"

definition scenario_360 :: WebSocketResponse where
  "scenario_360 = report_of (JInt 360) 10 [echo_of (1 / 1000) (1 / 2)]"

definition scenario_text_angle :: WebSocketResponse where
  "scenario_text_angle = report_of (JString ''north'') 10 [echo_of (1 / 1000) (1 / 2)]"

section \<open>Properties\<close>

subsection \<open>Auxiliary facts\<close>

lemma dict_get_JArray:
  "dict_get d k = JArray es \<Longrightarrow> map_of d k = Some (JArray es)"
  by (simp add: dict_get_def split: option.splits)

lemma radar_update_first_echo:
  assumes "dict_get obj ''echoResponses'' = JArray (JObject kv # es)"
    and "map_of kv ''time'' = Some tobj" and "number tobj = Inr t"
    and "map_of obj ''scanAngle'' = Some a" and "number a = Inr th"
  shows "radar_update obj =
     Inr (Some (a, \<lparr>x_coord = py_int (x_of t th), y_coord = py_int (y_of t th)\<rparr>))"
  using assms dict_get_JArray[OF assms(1)]
  by (simp add: radar_update_def dict_item_def)

lemma radar_update_not_truthy:
  "\<not> truthy (dict_get obj ''echoResponses'') \<Longrightarrow> radar_update obj = Inr None"
  by (simp add: radar_update_def)

lemma item_key_Inr:
  "item_key echo k = Inr v \<Longrightarrow> \<exists>kv. echo = JObject kv \<and> map_of kv k = Some v"
  by (cases echo) (auto simp: dict_item_def split: option.splits)

lemma item_0_JObject:
  "item_0 echoes = Inr (JObject kv) \<Longrightarrow> \<exists>es. echoes = JArray (JObject kv # es)"
  by (erule item_0.elims) auto

lemma radar_update_SomeD:
  assumes "radar_update obj = Inr (Some (a, p))"
  shows "\<exists>kv es tobj t th.
           dict_get obj ''echoResponses'' = JArray (JObject kv # es) \<and>
           map_of kv ''time'' = Some tobj \<and> number tobj = Inr t \<and>
           map_of obj ''scanAngle'' = Some a \<and> number a = Inr th \<and>
           p = \<lparr>x_coord = py_int (x_of t th), y_coord = py_int (y_of t th)\<rparr>"
proof -
  from assms have tr: "truthy (dict_get obj ''echoResponses'')"
    by (auto simp: radar_update_def split: if_splits)
  from assms tr obtain echoes echo tobj t th where
    a: "dict_item obj ''scanAngle'' = Inr a" and
    e: "dict_item obj ''echoResponses'' = Inr echoes" and
    i: "item_0 echoes = Inr echo" and
    k: "item_key echo ''time'' = Inr tobj" and
    t: "number tobj = Inr t" and
    th: "number a = Inr th" and
    p: "p = \<lparr>x_coord = py_int (x_of t th), y_coord = py_int (y_of t th)\<rparr>"
    by (auto simp: radar_update_def split: sum.splits)
  from k obtain kv where kv: "echo = JObject kv" "map_of kv ''time'' = Some tobj"
    using item_key_Inr by blast
  from i kv obtain es where es: "echoes = JArray (JObject kv # es)"
    using item_0_JObject by blast
  from e es have "dict_get obj ''echoResponses'' = JArray (JObject kv # es)"
    by (auto simp: dict_item_def dict_get_def split: option.splits)
  moreover from a have "map_of obj ''scanAngle'' = Some a"
    by (auto simp: dict_item_def split: option.splits)
  ultimately show ?thesis
    using kv t th p by blast
qed

lemma py_int_close: "\<bar>real_of_int (py_int x) - x\<bar> < 1"
  unfolding py_int_def by (auto; linarith)

lemma py_int_towards_zero: "\<bar>real_of_int (py_int x)\<bar> \<le> \<bar>x\<bar>"
  unfolding py_int_def by (auto; linarith)

lemma valid_echo_time:
  "valid_echo e \<Longrightarrow> \<exists>kv tobj t. e = JObject kv \<and> map_of kv ''time'' = Some tobj \<and> number tobj = Inr t"
  apply (cases e; simp split: option.splits)
  subgoal for kv tobj t by (cases tobj) auto
  done

lemma valid_angle_number: "valid_angle a \<Longrightarrow> \<exists>n. a = JInt n \<and> number a = Inr (of_int n)"
  by (cases a) auto

lemma valid_echoes_JArray: "valid_echoes v \<Longrightarrow> \<exists>es. v = JArray es \<and> list_all valid_echo es"
  by (cases v) auto

lemma dict_get_not_JNull: "dict_get d k = v \<Longrightarrow> v \<noteq> JNull \<Longrightarrow> map_of d k = Some v"
  by (auto simp: dict_get_def split: option.splits)

lemma valid_report_update:
  assumes v: "valid_report obj" and ne: "dict_get obj ''echoResponses'' \<noteq> JArray []"
  shows "\<exists>a p. radar_update obj = Inr (Some (a, p))"
proof -
  from v obtain es where es: "dict_get obj ''echoResponses'' = JArray es" "list_all valid_echo es"
    unfolding valid_report_def using valid_echoes_JArray by blast
  with ne obtain e es' where c: "es = e # es'" by (cases es) auto
  with es have "valid_echo e" by simp
  then obtain kv tobj t where e: "e = JObject kv" "map_of kv ''time'' = Some tobj" "number tobj = Inr t"
    using valid_echo_time by blast
  from v obtain n where n: "dict_get obj ''scanAngle'' = JInt n"
    unfolding valid_report_def using valid_angle_number by blast
  then have a: "map_of obj ''scanAngle'' = Some (JInt n)"
    by (rule dict_get_not_JNull) simp
  have "number (JInt n) = Inr (of_int n)" by simp
  from radar_update_first_echo[OF es(1)[unfolded c e(1)] e(2) e(3) a this]
  show ?thesis by blast
qed

lemma circle: "(x_of t a - 150)\<^sup>2 + (y_of t a - 150)\<^sup>2 = (relative_distance t * 150)\<^sup>2"
proof -
  define R where "R = relative_distance t * 150"
  define c where "c = cos (radians a)"
  define s where "s = sin (radians a)"
  have cs: "c\<^sup>2 + s\<^sup>2 = 1"
    by (simp add: c_def s_def)
  have "(x_of t a - 150)\<^sup>2 + (y_of t a - 150)\<^sup>2 = (R * c)\<^sup>2 + (R * s)\<^sup>2"
    by (simp add: x_of_def y_of_def R_def c_def s_def)
  also have "\<dots> = R\<^sup>2 * (c\<^sup>2 + s\<^sup>2)"
    by (simp add: power_mult_distrib distrib_left)
  finally show ?thesis
    by (simp add: cs R_def)
qed

lemma sq_lt_1: "\<bar>d::real\<bar> < 1 \<Longrightarrow> d\<^sup>2 < 1"
  by (simp add: abs_square_less_1)

lemma outside:
  fixes u v :: real and p q :: int
  assumes pu: "\<bar>real_of_int p - u\<bar> < 1" and qv: "\<bar>real_of_int q - v\<bar> < 1"
    and far: "u\<^sup>2 + v\<^sup>2 > 150\<^sup>2"
  shows "(real_of_int p)\<^sup>2 + (real_of_int q)\<^sup>2 > 140\<^sup>2"
proof -
  let ?P = "Complex (real_of_int p) (real_of_int q)"
  let ?U = "Complex u v"
  have "(150::real) = sqrt (150\<^sup>2)" by simp
  also have "\<dots> < sqrt (u\<^sup>2 + v\<^sup>2)"
    using far by (rule real_sqrt_less_mono)
  finally have U: "150 < cmod ?U"
    by (simp add: cmod_def)
  have "(real_of_int p - u)\<^sup>2 + (real_of_int q - v)\<^sup>2 < 1 + 1"
    using sq_lt_1[OF pu] sq_lt_1[OF qv] by (rule add_strict_mono)
  then have "sqrt ((real_of_int p - u)\<^sup>2 + (real_of_int q - v)\<^sup>2) < sqrt 4"
    by (intro real_sqrt_less_mono) simp
  then have D: "cmod (?P - ?U) < 2"
    by (simp add: cmod_def)
  have "cmod ?U - cmod (?P - ?U) \<le> cmod ?P"
    using norm_triangle_ineq2[of ?U "?U - ?P"] by (simp add: norm_minus_commute)
  with U D have P: "148 < cmod ?P" by linarith
  then have "148\<^sup>2 < (cmod ?P)\<^sup>2"
    by (intro power_strict_mono) simp_all
  then show ?thesis
    by (simp add: cmod_power2)
qed

lemma process_message_Some:
  "radar_update obj = Inr (Some (a, p)) \<Longrightarrow>
   process_message win obj = win\<lparr>radar_widget := update_radar_data (radar_widget win) a p\<rparr>"
  by (simp add: process_message_def)

lemma process_message_None:
  "radar_update obj = Inr None \<Longrightarrow> process_message win obj = win"
  by (simp add: process_message_def)

lemma process_message_visible:
  "dot_visible (radar_widget win) \<Longrightarrow> dot_visible (radar_widget (process_message win obj))"
  by (simp add: process_message_def update_radar_data_def split: sum.splits option.splits)

lemma deliver_visible:
  "dot_visible (radar_widget win) \<Longrightarrow> dot_visible (radar_widget (deliver win act))"
  by (cases act) (simp_all add: process_message_visible handle_connection_def)

lemma foldl_deliver_visible:
  "dot_visible (radar_widget win) \<Longrightarrow> dot_visible (radar_widget (foldl deliver win acts))"
  by (induction acts arbitrary: win) (simp_all add: deliver_visible)

lemma scenario_A_echoes:
  "dict_get scenario_A ''echoResponses'' =
     JArray [JObject [(''time'', JFloat (1 / 1000)), (''power'', JFloat (1 / 2))]]"
  by (simp add: scenario_A_def report_of_def echo_of_def dict_get_def)

lemma scenario_A_valid: "valid_report scenario_A"
  by (simp add: valid_report_def scenario_A_def report_of_def echo_of_def dict_get_def)

lemma x_of_A: "x_of (1 / 1000) 0 = 525 / 2"
  by (simp add: x_of_def relative_distance_def radians_def)

lemma y_of_A: "y_of (1 / 1000) 0 = 150"
  by (simp add: y_of_def relative_distance_def radians_def)

lemma py_int_A: "py_int (525 / 2) = 262"
  by (simp add: py_int_def) linarith?

lemma radar_update_A:
  "radar_update scenario_A = Inr (Some (JInt 0, \<lparr>x_coord = 262, y_coord = 150\<rparr>))"
  by (simp add: radar_update_def scenario_A_def report_of_def echo_of_def dict_get_def
      dict_item_def x_of_A y_of_A py_int_A) (simp add: py_int_def)

lemma dict_get_update: "dict_get (AList.update k v d) k = v"
  by (simp add: dict_get_def update_conv')

lemma dict_item_update: "dict_item (AList.update k v d) k = Inr v"
  by (simp add: dict_item_def update_conv')

lemma dict_item_update_other: "k' \<noteq> k \<Longrightarrow> dict_item (AList.update k v d) k' = dict_item d k'"
  by (simp add: dict_item_def update_conv')

lemma echoes_report_of: "dict_get (report_of a d es) ''echoResponses'' = JArray es"
  by (simp add: report_of_def dict_get_def)

lemma angle_report_of: "map_of (report_of a d es) ''scanAngle'' = Some a"
  by (simp add: report_of_def)

lemma echo_of_JObject: "echo_of t p = JObject [(''time'', JFloat t), (''power'', JFloat p)]"
  by (simp add: echo_of_def)

lemma start_websocket_started: "start_websocket WebSocketWorker_init = (started, [Connect])"
  by (simp add: start_websocket_def WebSocketWorker_init_def outer_loop_def started_def)

lemma websocket_client_append:
  "websocket_client w (xs @ ys) =
     (case websocket_client w xs of
        None \<Rightarrow> None
      | Some (w', acts) \<Rightarrow>
          (case websocket_client w' ys of
             None \<Rightarrow> None
           | Some (w'', acts') \<Rightarrow> Some (w'', acts @ acts')))"
  by (induction xs arbitrary: w) (auto split: option.splits)

lemma failed_attempt:
  "websocket_client started [Connect_fails, Sleep_done] =
     Some (started, [Print_connection_error, Emit_connection_status False, Sleep 5, Connect])"
  by (simp add: started_def except_Exception_def outer_loop_def)

lemma failed_attempts:
  "websocket_client started (concat (replicate n [Connect_fails, Sleep_done])) =
     Some (started,
       concat (replicate n
         [Print_connection_error, Emit_connection_status False, Sleep 5, Connect]))"
proof (induction n)
  case 0
  show ?case by simp
next
  case (Suc n)
  have "websocket_client started (concat (replicate (Suc n) [Connect_fails, Sleep_done])) =
        websocket_client started
          ([Connect_fails, Sleep_done] @ concat (replicate n [Connect_fails, Sleep_done]))"
    by simp
  also have "\<dots> = Some (started,
       [Print_connection_error, Emit_connection_status False, Sleep 5, Connect] @
       concat (replicate n
         [Print_connection_error, Emit_connection_status False, Sleep 5, Connect]))"
    by (simp only: websocket_client_append failed_attempt Suc.IH option.case prod.case)
  finally show ?case by simp
qed

lemma stopped_attempt:
  "websocket_client started [Stop_called, Connect_fails, Sleep_done] =
     Some (\<lparr>running = False, control = Returned\<rparr>,
       [Print_connection_error, Emit_connection_status False, Sleep 5])"
  by (simp add: started_def stop_def except_Exception_def outer_loop_def)

subsection \<open>Reconnection after a failure or a loss of the session\<close>

text \<open>
  Claim C1 as stated fails: when \<^verbatim>\<open>recv\<close> raises \<^verbatim>\<open>ConnectionClosed\<close> the inner
  loop is left by \<^verbatim>\<open>break\<close>, and the next connection attempt follows at once. No
  \<open>connection_status(False)\<close> is emitted and nothing sleeps: two sessions that are
  lost one after the other give two new attempts with no delay between them.
\<close>

theorem session_loss_reconnects_at_once:
  "websocket_client started
     [Connect_ok, Recv_ConnectionClosed, Connect_ok, Recv_ConnectionClosed] =
   Some (started,
     [Emit_connection_status True, Session_closed, Connect,
      Emit_connection_status True, Session_closed, Connect])"
  by (simp add: started_def inner_loop_def leave_session_def outer_loop_def)

text \<open>
  Claim C1, amended. A failed connection attempt, and an exception other than
  \<^verbatim>\<open>ConnectionClosed\<close> raised by \<^verbatim>\<open>recv\<close>, make the worker emit
  \<open>connection_status(False)\<close> and then sleep 5 seconds; while it sleeps it accepts
  only the end of the sleep and a call of \<^verbatim>\<open>stop\<close>, which does not cut the sleep
  short, and the next attempt starts when the sleep has ended and \<open>running\<close> is still
  true. \<^verbatim>\<open>ConnectionClosed\<close> leads to the next attempt at once, without the emission
  and without the delay. There is no bound on the number of attempts: after \<open>n\<close>
  failures the worker is connecting again, for every \<open>n\<close>, and once \<^verbatim>\<open>stop\<close> has
  been called it returns at the next test of the outer loop.
\<close>

theorem reconnect_policy:
  "websocket_client_step \<lparr>running = True, control = Awaiting_connect\<rparr> Connect_fails =
     Some (\<lparr>running = True, control = Awaiting_sleep\<rparr>,
       [Print_connection_error, Emit_connection_status False, Sleep 5]) \<and>
   websocket_client_step \<lparr>running = True, control = Awaiting_recv\<rparr> Recv_raises =
     Some (\<lparr>running = True, control = Awaiting_sleep\<rparr>,
       [Session_closed, Print_connection_error, Emit_connection_status False, Sleep 5]) \<and>
   (websocket_client_step \<lparr>running = r, control = Awaiting_sleep\<rparr> ev \<noteq> None) =
     (ev = Sleep_done \<or> ev = Stop_called) \<and>
   websocket_client_step \<lparr>running = r, control = Awaiting_sleep\<rparr> Stop_called =
     Some (\<lparr>running = False, control = Awaiting_sleep\<rparr>, []) \<and>
   websocket_client_step \<lparr>running = True, control = Awaiting_sleep\<rparr> Sleep_done =
     Some (\<lparr>running = True, control = Awaiting_connect\<rparr>, [Connect]) \<and>
   websocket_client_step \<lparr>running = False, control = Awaiting_sleep\<rparr> Sleep_done =
     Some (\<lparr>running = False, control = Returned\<rparr>, []) \<and>
   websocket_client_step \<lparr>running = True, control = Awaiting_recv\<rparr> Recv_ConnectionClosed =
     Some (\<lparr>running = True, control = Awaiting_connect\<rparr>, [Session_closed, Connect]) \<and>
   websocket_client started (concat (replicate n [Connect_fails, Sleep_done])) =
     Some (started,
       concat (replicate n
         [Print_connection_error, Emit_connection_status False, Sleep 5, Connect])) \<and>
   websocket_client started
       (concat (replicate n [Connect_fails, Sleep_done]) @
        [Stop_called, Connect_fails, Sleep_done]) =
     Some (\<lparr>running = False, control = Returned\<rparr>,
       concat (replicate n
         [Print_connection_error, Emit_connection_status False, Sleep 5, Connect]) @
       [Print_connection_error, Emit_connection_status False, Sleep 5])"
proof (intro conjI)
  show "(websocket_client_step \<lparr>running = r, control = Awaiting_sleep\<rparr> ev \<noteq> None) =
     (ev = Sleep_done \<or> ev = Stop_called)"
  proof (cases ev)
    case (Recv_message f)
    then show ?thesis by (cases f) simp_all
  qed simp_all
  show "websocket_client started
       (concat (replicate n [Connect_fails, Sleep_done]) @
        [Stop_called, Connect_fails, Sleep_done]) =
     Some (\<lparr>running = False, control = Returned\<rparr>,
       concat (replicate n
         [Print_connection_error, Emit_connection_status False, Sleep 5, Connect]) @
       [Print_connection_error, Emit_connection_status False, Sleep 5])"
    by (simp only: websocket_client_append failed_attempts stopped_attempt option.case prod.case)
qed (simp_all add: except_Exception_def outer_loop_def leave_session_def stop_def
    failed_attempts)

theorem reconnect_policy_witness:
  "websocket_client started [Connect_fails, Sleep_done, Connect_fails, Sleep_done] =
     Some (started,
       [Print_connection_error, Emit_connection_status False, Sleep 5, Connect,
        Print_connection_error, Emit_connection_status False, Sleep 5, Connect])"
  using reconnect_policy[of True Sleep_done 2]
  by (simp add: numeral_2_eq_2)

subsection \<open>A message that cannot be decoded\<close>

text \<open>
  Claim C2 at a message that is not JSON: the exception of \<^verbatim>\<open>json.loads\<close> is not
  caught by the inner \<^verbatim>\<open>try\<close>; it closes the session, reaches the handler for
  connection errors, and the worker reports a disconnection and sleeps. A message that
  lacks \<open>scanAngle\<close> is handled as the claim says: the session stays open, the
  worker waits for the next message, and \<^verbatim>\<open>process_message\<close> prints the error.
\<close>

theorem invalid_json_closes_session:
  "websocket_client started [Connect_ok, Recv_message Not_json] =
     Some (\<lparr>running = True, control = Awaiting_sleep\<rparr>,
       [Emit_connection_status True, Session_closed, Print_connection_error,
        Emit_connection_status False, Sleep 5]) \<and>
   websocket_client started [Connect_ok, Recv_message (Json_object scenario_D)] =
     Some (\<lparr>running = True, control = Awaiting_recv\<rparr>,
       [Emit_connection_status True, Emit_message_received scenario_D]) \<and>
   process_message RadarWindow_init scenario_D =
     RadarWindow_init\<lparr>console := [Error_processing_message KeyError]\<rparr>"
proof -
  have r: "radar_update scenario_D = Inl KeyError"
    by (simp add: radar_update_def scenario_D_def echo_of_def dict_get_def dict_item_def)
  show ?thesis
    by (simp add: started_def inner_loop_def except_Exception_def process_message_def r
        RadarWindow_init_def)
qed

subsection \<open>No validation of the scan angle\<close>

text \<open>
  Claim C3 as stated fails: nothing checks the range of \<open>scanAngle\<close>. The message of
  scenario A with \<open>scanAngle\<close> 360 is processed without an error, and the widget
  receives the angle 360.
\<close>

theorem scanAngle_360_accepted:
  "radar_update scenario_360 =
     Inr (Some (JInt 360, \<lparr>x_coord = py_int (x_of (1 / 1000) 360),
                            y_coord = py_int (y_of (1 / 1000) 360)\<rparr>)) \<and>
   angle (radar_widget (process_message RadarWindow_init scenario_360)) = JInt 360 \<and>
   dot_visible (radar_widget (process_message RadarWindow_init scenario_360)) \<and>
   console (process_message RadarWindow_init scenario_360) = []"
proof -
  have r: "radar_update scenario_360 =
     Inr (Some (JInt 360, \<lparr>x_coord = py_int (x_of (1 / 1000) 360),
                            y_coord = py_int (y_of (1 / 1000) 360)\<rparr>))"
    by (simp add: radar_update_def scenario_360_def report_of_def echo_of_def dict_get_def
        dict_item_def)
  show ?thesis
    by (simp add: r process_message_def update_radar_data_def RadarWindow_init_def)
qed

text \<open>
  Claim C3, amended. With an echo list whose first element has a numeric \<open>time\<close>,
  every integer \<open>scanAngle\<close> (0, 359, 360, a negative one) is accepted and handed to
  the widget unchanged; an absent \<open>scanAngle\<close> raises \<^verbatim>\<open>KeyError\<close> and one that is
  not a number raises \<^verbatim>\<open>TypeError\<close>, and both are caught and printed by
  \<^verbatim>\<open>process_message\<close>.
\<close>

theorem scanAngle_not_range_checked:
  assumes "dict_get obj ''echoResponses'' = JArray (JObject kv # es)"
    and "map_of kv ''time'' = Some tobj" and "number tobj = Inr t"
  shows "(map_of obj ''scanAngle'' = Some (JInt n) \<longrightarrow>
            radar_update obj =
              Inr (Some (JInt n, \<lparr>x_coord = py_int (x_of t (of_int n)),
                                  y_coord = py_int (y_of t (of_int n))\<rparr>)) \<and>
            angle (radar_widget (process_message win obj)) = JInt n \<and>
            console (process_message win obj) = console win) \<and>
         (map_of obj ''scanAngle'' = None \<longrightarrow>
            radar_update obj = Inl KeyError \<and>
            process_message win obj =
              win\<lparr>console := console win @ [Error_processing_message KeyError]\<rparr>) \<and>
         (map_of obj ''scanAngle'' = Some a \<and> number a = Inl TypeError \<longrightarrow>
            radar_update obj = Inl TypeError \<and>
            process_message win obj =
              win\<lparr>console := console win @ [Error_processing_message TypeError]\<rparr>)"
proof (intro conjI impI)
  assume a: "map_of obj ''scanAngle'' = Some (JInt n)"
  have "number (JInt n) = Inr (of_int n)" by simp
  from radar_update_first_echo[OF assms a this]
  show r: "radar_update obj =
              Inr (Some (JInt n, \<lparr>x_coord = py_int (x_of t (of_int n)),
                                  y_coord = py_int (y_of t (of_int n))\<rparr>))" .
  show "angle (radar_widget (process_message win obj)) = JInt n"
    by (simp add: process_message_Some[OF r] update_radar_data_def)
  show "console (process_message win obj) = console win"
    by (simp add: process_message_Some[OF r])
next
  assume "map_of obj ''scanAngle'' = None"
  with assms(1) show r: "radar_update obj = Inl KeyError"
    by (simp add: radar_update_def dict_item_def)
  show "process_message win obj =
              win\<lparr>console := console win @ [Error_processing_message KeyError]\<rparr>"
    by (simp add: process_message_def r)
next
  assume "map_of obj ''scanAngle'' = Some a \<and> number a = Inl TypeError"
  with assms dict_get_JArray[OF assms(1)] show r: "radar_update obj = Inl TypeError"
    by (simp add: radar_update_def dict_item_def)
  show "process_message win obj =
              win\<lparr>console := console win @ [Error_processing_message TypeError]\<rparr>"
    by (simp add: process_message_def r)
qed

theorem scanAngle_not_range_checked_witness:
  "angle (radar_widget (process_message RadarWindow_init scenario_360)) = JInt 360 \<and>
   angle (radar_widget (process_message RadarWindow_init
     (report_of (JInt (- 1)) 10 [echo_of (1 / 1000) (1 / 2)]))) = JInt (- 1) \<and>
   angle (radar_widget (process_message RadarWindow_init
     (report_of (JInt 359) 10 [echo_of (1 / 1000) (1 / 2)]))) = JInt 359 \<and>
   map_of scenario_D ''scanAngle'' = None \<and>
   radar_update scenario_D = Inl KeyError \<and>
   number (JString ''north'') = Inl TypeError \<and>
   radar_update scenario_text_angle = Inl TypeError"
proof -
  let ?kv = "[(''time'', JFloat (1 / 1000)), (''power'', JFloat (1 / 2))]"
  have e: "dict_get (report_of a 10 [echo_of (1 / 1000) (1 / 2)]) ''echoResponses'' =
     JArray (JObject ?kv # [])" for a
    by (simp add: echoes_report_of echo_of_JObject)
  have d: "dict_get scenario_D ''echoResponses'' = JArray (JObject ?kv # [])"
    by (simp add: scenario_D_def dict_get_def echo_of_JObject)
  have t: "map_of ?kv ''time'' = Some (JFloat (1 / 1000))" by simp
  have n: "number (JFloat (1 / 1000)) = Inr (1 / 1000)" by simp
  have dn: "map_of scenario_D ''scanAngle'' = None"
    by (simp add: scenario_D_def)
  show ?thesis
    using scanAngle_not_range_checked[OF e t n, of "JInt 360" 360 RadarWindow_init]
      scanAngle_not_range_checked[OF e t n, of "JInt (- 1)" "- 1" RadarWindow_init]
      scanAngle_not_range_checked[OF e t n, of "JInt 359" 359 RadarWindow_init]
      scanAngle_not_range_checked[OF d t n, of 0 RadarWindow_init]
      scanAngle_not_range_checked[OF e t n, of "JString ''north''" 0 RadarWindow_init
        "JString ''north''"]
      dn
    by (simp add: scenario_360_def scenario_text_angle_def angle_report_of)
qed

subsection \<open>Delivery to the widget\<close>

text \<open>
  Claim C4 as stated fails: for the message of scenario B, whose echo list is empty,
  \<^verbatim>\<open>update_radar_data\<close> is not called; the widget keeps the angle 0 and no repaint
  is requested.
\<close>

theorem scenario_B_updates_nothing:
  "radar_update scenario_B = Inr None \<and>
   process_message RadarWindow_init scenario_B = RadarWindow_init \<and>
   angle (radar_widget (process_message RadarWindow_init scenario_B)) = JInt 0 \<and>
   update_requests (radar_widget (process_message RadarWindow_init scenario_B)) = 0"
proof -
  have r: "radar_update scenario_B = Inr None"
    by (simp add: radar_update_def scenario_B_def report_of_def dict_get_def)
  show ?thesis
    by (simp add: r process_message_def RadarWindow_init_def RadarWidget_init_def)
qed

text \<open>
  Claim C4, amended. A message for which the body of \<^verbatim>\<open>process_message\<close> reaches the
  call updates the widget exactly once, with the scan angle of the message; a message
  whose \<open>echoResponses\<close> is empty, absent or otherwise false leaves the window as it
  was. The worker emits \<open>message_received\<close> once for every message that decodes to
  a dict, and the signal is what \<^verbatim>\<open>process_message\<close> receives.
\<close>

theorem update_once_when_echoes:
  "(radar_update obj = Inr (Some (a, p)) \<longrightarrow>
      process_message win obj =
        win\<lparr>radar_widget := update_radar_data (radar_widget win) a p\<rparr> \<and>
      angle (radar_widget (process_message win obj)) = a \<and>
      update_requests (radar_widget (process_message win obj)) =
        Suc (update_requests (radar_widget win))) \<and>
   (\<not> truthy (dict_get obj ''echoResponses'') \<longrightarrow>
      radar_update obj = Inr None \<and> process_message win obj = win) \<and>
   websocket_client_step \<lparr>running = True, control = Awaiting_recv\<rparr>
       (Recv_message (Json_object obj)) =
     Some (\<lparr>running = True, control = Awaiting_recv\<rparr>, [Emit_message_received obj]) \<and>
   deliver win (Emit_message_received obj) = process_message win obj"
proof (intro conjI impI)
  assume r: "radar_update obj = Inr (Some (a, p))"
  show "process_message win obj =
        win\<lparr>radar_widget := update_radar_data (radar_widget win) a p\<rparr>"
    by (rule process_message_Some[OF r])
  show "angle (radar_widget (process_message win obj)) = a"
    by (simp add: process_message_Some[OF r] update_radar_data_def)
  show "update_requests (radar_widget (process_message win obj)) =
        Suc (update_requests (radar_widget win))"
    by (simp add: process_message_Some[OF r] update_radar_data_def)
next
  assume "\<not> truthy (dict_get obj ''echoResponses'')"
  then show r: "radar_update obj = Inr None"
    by (rule radar_update_not_truthy)
  show "process_message win obj = win"
    by (rule process_message_None[OF r])
next
  show "websocket_client_step \<lparr>running = True, control = Awaiting_recv\<rparr>
       (Recv_message (Json_object obj)) =
     Some (\<lparr>running = True, control = Awaiting_recv\<rparr>, [Emit_message_received obj])"
    by (simp add: inner_loop_def)
  show "deliver win (Emit_message_received obj) = process_message win obj"
    by simp
qed

theorem update_once_when_echoes_witness:
  "radar_update scenario_A = Inr (Some (JInt 0, \<lparr>x_coord = 262, y_coord = 150\<rparr>)) \<and>
   angle (radar_widget (process_message RadarWindow_init scenario_A)) = JInt 0 \<and>
   update_requests (radar_widget (process_message RadarWindow_init scenario_A)) = 1 \<and>
   \<not> truthy (dict_get scenario_B ''echoResponses'') \<and>
   process_message (process_message RadarWindow_init scenario_A) scenario_B =
     process_message RadarWindow_init scenario_A"
proof -
  have a: "radar_update scenario_A = Inr (Some (JInt 0, \<lparr>x_coord = 262, y_coord = 150\<rparr>))"
    by (rule radar_update_A)
  have b: "\<not> truthy (dict_get scenario_B ''echoResponses'')"
    by (simp add: scenario_B_def echoes_report_of)
  from a update_once_when_echoes[of scenario_A "JInt 0" "\<lparr>x_coord = 262, y_coord = 150\<rparr>"
      RadarWindow_init]
  have A: "angle (radar_widget (process_message RadarWindow_init scenario_A)) = JInt 0 \<and>
      update_requests (radar_widget (process_message RadarWindow_init scenario_A)) =
        Suc (update_requests (radar_widget RadarWindow_init))"
    by blast
  have u: "update_requests (radar_widget RadarWindow_init) = 0"
    by (simp add: RadarWindow_init_def RadarWidget_init_def)
  from b update_once_when_echoes[of scenario_B _ _ "process_message RadarWindow_init scenario_A"]
  have B: "process_message (process_message RadarWindow_init scenario_A) scenario_B =
     process_message RadarWindow_init scenario_A"
    by blast
  from a b A B u show ?thesis
    by simp
qed

subsection \<open>The published position\<close>

text \<open>
  Claim C5 as stated fails: the position handed to the widget is the truncated one. In
  scenario A the formula gives \<open>x = 262.5\<close> and \<open>y = 150\<close>, and the widget receives
  the point \<open>(262, 150)\<close>, half a unit away in \<open>x\<close>.
\<close>

theorem scenario_A_published_truncated:
  "radar_update scenario_A = Inr (Some (JInt 0, \<lparr>x_coord = 262, y_coord = 150\<rparr>)) \<and>
   dot_position (radar_widget (process_message RadarWindow_init scenario_A)) =
     \<lparr>x_coord = 262, y_coord = 150\<rparr> \<and>
   x_of (1 / 1000) 0 = 262.5 \<and> y_of (1 / 1000) 0 = 150 \<and>
   \<bar>real_of_int 262 - x_of (1 / 1000) 0\<bar> = 1 / 2"
proof -
  have a: "radar_update scenario_A = Inr (Some (JInt 0, \<lparr>x_coord = 262, y_coord = 150\<rparr>))"
    by (rule radar_update_A)
  show ?thesis
    by (simp add: a process_message_def update_radar_data_def x_of_A y_of_A)
qed

text \<open>
  Claim C5, amended. For a message with at least one echo the point handed to the widget
  is \<open>(int(x), int(y))\<close> with \<open>x = r * 150 * cos(rad) + 150\<close> and
  \<open>y = r * 150 * sin(rad) + 150\<close>, where \<open>r = (time * 300000 / 2) / 200\<close> for the
  time of the first echo and \<open>rad = scanAngle * pi / 180\<close>.
\<close>

theorem published_position_formula:
  assumes "dict_get obj ''echoResponses'' = JArray (JObject kv # es)"
    and "map_of kv ''time'' = Some tobj" and "number tobj = Inr t"
    and "map_of obj ''scanAngle'' = Some a" and "number a = Inr th"
    and "r = (t * 300000 / 2) / 200" and "rad = th * pi / 180"
  shows "radar_update obj =
           Inr (Some (a, \<lparr>x_coord = py_int (r * 150 * cos rad + 150),
                           y_coord = py_int (r * 150 * sin rad + 150)\<rparr>)) \<and>
         dot_position (radar_widget (process_message win obj)) =
           \<lparr>x_coord = py_int (r * 150 * cos rad + 150),
            y_coord = py_int (r * 150 * sin rad + 150)\<rparr>"
proof -
  have x: "x_of t th = r * 150 * cos rad + 150"
    by (simp add: x_of_def relative_distance_def radians_def assms(6,7))
  have y: "y_of t th = r * 150 * sin rad + 150"
    by (simp add: y_of_def relative_distance_def radians_def assms(6,7))
  from radar_update_first_echo[OF assms(1-5)] have u: "radar_update obj =
           Inr (Some (a, \<lparr>x_coord = py_int (r * 150 * cos rad + 150),
                           y_coord = py_int (r * 150 * sin rad + 150)\<rparr>))"
    by (simp only: x y)
  show ?thesis
    by (simp add: u process_message_Some[OF u] update_radar_data_def)
qed

theorem published_position_formula_witness:
  "dict_get scenario_A ''echoResponses'' =
     JArray [JObject [(''time'', JFloat (1 / 1000)), (''power'', JFloat (1 / 2))]] \<and>
   map_of scenario_A ''scanAngle'' = Some (JInt 0) \<and>
   (3 / 4 :: real) = (1 / 1000 * 300000 / 2) / 200 \<and>
   radar_update scenario_A =
     Inr (Some (JInt 0, \<lparr>x_coord = py_int (3 / 4 * 150 * cos 0 + 150),
                          y_coord = py_int (3 / 4 * 150 * sin 0 + 150)\<rparr>)) \<and>
   py_int (3 / 4 * 150 * cos 0 + 150) = 262 \<and> py_int (3 / 4 * 150 * sin 0 + 150) = 150"
proof -
  let ?kv = "[(''time'', JFloat (1 / 1000)), (''power'', JFloat (1 / 2))]"
  have e: "dict_get scenario_A ''echoResponses'' = JArray (JObject ?kv # [])"
    by (simp add: scenario_A_def echoes_report_of echo_of_JObject)
  have t: "map_of ?kv ''time'' = Some (JFloat (1 / 1000))" by simp
  have n: "number (JFloat (1 / 1000)) = Inr (1 / 1000)" by simp
  have a: "map_of scenario_A ''scanAngle'' = Some (JInt 0)"
    by (simp add: scenario_A_def angle_report_of)
  have th: "number (JInt 0) = Inr 0" by simp
  have r: "(3 / 4 :: real) = (1 / 1000 * 300000 / 2) / 200" by simp
  have p: "py_int (3 / 4 * 150 * cos 0 + 150) = 262 \<and> py_int (3 / 4 * 150 * sin 0 + 150) = 150"
    by (simp add: py_int_def)
  have c: "cos (0 * pi / 180) = cos (0::real)" "sin (0 * pi / 180) = sin (0::real)"
    by simp_all
  from published_position_formula[OF e t n a th r refl, of RadarWindow_init]
  have u: "radar_update scenario_A =
     Inr (Some (JInt 0, \<lparr>x_coord = py_int (3 / 4 * 150 * cos 0 + 150),
                          y_coord = py_int (3 / 4 * 150 * sin 0 + 150)\<rparr>))"
    by (simp only: c)
  from e a r p u show ?thesis
    by blast
qed

subsection \<open>A position exactly when there is an echo\<close>

text \<open>
  Claim C6. A valid scan report with at least one echo yields a position: the body of
  \<^verbatim>\<open>process_message\<close> reaches the call of \<^verbatim>\<open>update_radar_data\<close> with a point. A
  report whose echo sequence is empty yields none: the \<^verbatim>\<open>if\<close> is skipped and the
  window is left as it was.
\<close>

theorem position_iff_echoes:
  "(valid_report obj \<and> dict_get obj ''echoResponses'' \<noteq> JArray [] \<longrightarrow>
      (\<exists>a p. radar_update obj = Inr (Some (a, p)) \<and>
         process_message win obj =
           win\<lparr>radar_widget := update_radar_data (radar_widget win) a p\<rparr>)) \<and>
   (dict_get obj ''echoResponses'' = JArray [] \<longrightarrow>
      radar_update obj = Inr None \<and> process_message win obj = win)"
proof (intro conjI impI)
  assume "valid_report obj \<and> dict_get obj ''echoResponses'' \<noteq> JArray []"
  then obtain a p where "radar_update obj = Inr (Some (a, p))"
    using valid_report_update by blast
  then show "\<exists>a p. radar_update obj = Inr (Some (a, p)) \<and>
         process_message win obj =
           win\<lparr>radar_widget := update_radar_data (radar_widget win) a p\<rparr>"
    using process_message_Some by blast
next
  assume e: "dict_get obj ''echoResponses'' = JArray []"
  then show "radar_update obj = Inr None"
    by (simp add: radar_update_not_truthy)
  then show "process_message win obj = win"
    by (rule process_message_None)
qed

theorem position_iff_echoes_witness:
  "valid_report scenario_A \<and> dict_get scenario_A ''echoResponses'' \<noteq> JArray [] \<and>
   (\<exists>a p. radar_update scenario_A = Inr (Some (a, p)) \<and>
      process_message RadarWindow_init scenario_A =
        RadarWindow_init\<lparr>radar_widget :=
          update_radar_data (radar_widget RadarWindow_init) a p\<rparr>) \<and>
   dict_get scenario_B ''echoResponses'' = JArray [] \<and>
   radar_update scenario_B = Inr None \<and>
   process_message RadarWindow_init scenario_B = RadarWindow_init"
proof -
  have a: "valid_report scenario_A \<and> dict_get scenario_A ''echoResponses'' \<noteq> JArray []"
    by (simp add: scenario_A_valid scenario_A_echoes)
  have b: "dict_get scenario_B ''echoResponses'' = JArray []"
    by (simp add: scenario_B_def report_of_def dict_get_def)
  show ?thesis
    using a b position_iff_echoes[of scenario_A RadarWindow_init]
      position_iff_echoes[of scenario_B RadarWindow_init]
    by simp
qed

subsection \<open>Only the first echo counts\<close>

text \<open>
  Claim C7. Only the first echo is used: two messages that differ only in the echoes
  after the first one give the same result, whatever those echoes are and however many
  there are.
\<close>

theorem only_first_echo_used:
  "radar_update (AList.update ''echoResponses'' (JArray (e # es)) obj) =
   radar_update (AList.update ''echoResponses'' (JArray (e # es')) obj) \<and>
   process_message win (AList.update ''echoResponses'' (JArray (e # es)) obj) =
   process_message win (AList.update ''echoResponses'' (JArray (e # es')) obj)"
proof -
  have r: "radar_update (AList.update ''echoResponses'' (JArray (e # xs)) obj) =
          radar_update (AList.update ''echoResponses'' (JArray [e]) obj)" for xs
    by (simp add: radar_update_def dict_get_update dict_item_update dict_item_update_other
        cong: sum.case_cong)
  have "radar_update (AList.update ''echoResponses'' (JArray (e # es)) obj) =
             radar_update (AList.update ''echoResponses'' (JArray (e # es')) obj)"
    by (simp only: r[of es] r[of es'])
  then show ?thesis
    by (simp add: process_message_def)
qed

subsection \<open>No clamping beyond the maximal range\<close>

text \<open>
  Claim C8. An echo whose range fraction exceeds 1 is not clamped: the point handed to
  the widget is computed from the range fraction itself, the exact point lies at
  distance \<open>relative_distance * 150 > 150\<close> from the centre \<open>(150, 150)\<close>, and the
  truncated point lies outside the radar disc of radius 140 that \<^verbatim>\<open>draw_radar\<close>
  paints.
\<close>

theorem out_of_range_echo_not_clamped:
  assumes "dict_get obj ''echoResponses'' = JArray (JObject kv # es)"
    and "map_of kv ''time'' = Some tobj" and "number tobj = Inr t"
    and "map_of obj ''scanAngle'' = Some a" and "number a = Inr th"
    and "1 < relative_distance t"
  shows "radar_update obj =
           Inr (Some (a, \<lparr>x_coord = py_int (x_of t th), y_coord = py_int (y_of t th)\<rparr>)) \<and>
         (x_of t th - 150)\<^sup>2 + (y_of t th - 150)\<^sup>2 = (relative_distance t * 150)\<^sup>2 \<and>
         150\<^sup>2 < (x_of t th - 150)\<^sup>2 + (y_of t th - 150)\<^sup>2 \<and>
         140\<^sup>2 < (py_int (x_of t th) - 150)\<^sup>2 + (py_int (y_of t th) - 150)\<^sup>2"
proof -
  have far: "150\<^sup>2 < (x_of t th - 150)\<^sup>2 + (y_of t th - 150)\<^sup>2"
  proof -
    have "150 < relative_distance t * 150"
      using assms(6) by simp
    then have "150\<^sup>2 < (relative_distance t * 150)\<^sup>2"
      by (intro power_strict_mono) simp_all
    then show ?thesis by (simp only: circle)
  qed
  have "\<bar>real_of_int (py_int (x_of t th) - 150) - (x_of t th - 150)\<bar> < 1"
    "\<bar>real_of_int (py_int (y_of t th) - 150) - (y_of t th - 150)\<bar> < 1"
    using py_int_close[of "x_of t th"] py_int_close[of "y_of t th"] by simp_all
  from outside[OF this far]
  have "real_of_int (140\<^sup>2) < real_of_int ((py_int (x_of t th) - 150)\<^sup>2 + (py_int (y_of t th) - 150)\<^sup>2)"
    by simp
  then have "140\<^sup>2 < (py_int (x_of t th) - 150)\<^sup>2 + (py_int (y_of t th) - 150)\<^sup>2"
    by (simp only: of_int_less_iff)
  with far circle radar_update_first_echo[OF assms(1-5)] show ?thesis
    by blast
qed

theorem out_of_range_echo_not_clamped_witness:
  "dict_get scenario_beyond ''echoResponses'' =
     JArray [JObject [(''time'', JFloat (1 / 500)), (''power'', JFloat (1 / 2))]] \<and>
   map_of scenario_beyond ''scanAngle'' = Some (JInt 0) \<and>
   1 < relative_distance (1 / 500) \<and>
   radar_update scenario_beyond = Inr (Some (JInt 0, \<lparr>x_coord = 375, y_coord = 150\<rparr>)) \<and>
   (140::int)\<^sup>2 < (375 - 150)\<^sup>2 + (150 - 150)\<^sup>2"
proof -
  have e: "dict_get scenario_beyond ''echoResponses'' =
     JArray (JObject [(''time'', JFloat (1 / 500)), (''power'', JFloat (1 / 2))] # [])"
    by (simp add: scenario_beyond_def echoes_report_of echo_of_def)
  have t: "map_of [(''time'', JFloat (1 / 500)), (''power'', JFloat (1 / 2))] ''time'' =
     Some (JFloat (1 / 500))"
    by simp
  have n: "number (JFloat (1 / 500)) = Inr (1 / 500)"
    by simp
  have a: "map_of scenario_beyond ''scanAngle'' = Some (JInt 0)"
    by (simp add: scenario_beyond_def angle_report_of)
  have th: "number (JInt 0) = Inr 0"
    by simp
  have r: "1 < relative_distance (1 / 500)"
    by (simp add: relative_distance_def)
  have x: "py_int (x_of (1 / 500) 0) = 375"
    by (simp add: x_of_def relative_distance_def radians_def py_int_def)
  have y: "py_int (y_of (1 / 500) 0) = 150"
    by (simp add: y_of_def relative_distance_def radians_def py_int_def)
  show ?thesis
    using out_of_range_echo_not_clamped[OF e t n a th r] e a r
    by (simp add: x y)
qed

subsection \<open>Truncation of the coordinates\<close>

text \<open>
  Claim C9. Whenever a message yields a position, the coordinates handed to the widget
  are \<^verbatim>\<open>int(x)\<close> and \<^verbatim>\<open>int(y)\<close> of the computed \<open>x\<close> and \<open>y\<close>: truncated towards
  zero, hence less than one display unit away from the exact value in each coordinate.
\<close>

theorem published_coordinates_truncated:
  assumes "radar_update obj = Inr (Some (a, p))"
  shows "\<exists>kv es tobj t th.
           dict_get obj ''echoResponses'' = JArray (JObject kv # es) \<and>
           map_of kv ''time'' = Some tobj \<and> number tobj = Inr t \<and>
           map_of obj ''scanAngle'' = Some a \<and> number a = Inr th \<and>
           x_coord p = py_int (x_of t th) \<and> y_coord p = py_int (y_of t th) \<and>
           \<bar>real_of_int (x_coord p) - x_of t th\<bar> < 1 \<and>
           \<bar>real_of_int (y_coord p) - y_of t th\<bar> < 1 \<and>
           \<bar>real_of_int (x_coord p)\<bar> \<le> \<bar>x_of t th\<bar> \<and>
           \<bar>real_of_int (y_coord p)\<bar> \<le> \<bar>y_of t th\<bar> \<and>
           dot_position (radar_widget (process_message win obj)) = p"
proof -
  from radar_update_SomeD[OF assms] obtain kv es tobj t th where
    h: "dict_get obj ''echoResponses'' = JArray (JObject kv # es)"
       "map_of kv ''time'' = Some tobj" "number tobj = Inr t"
       "map_of obj ''scanAngle'' = Some a" "number a = Inr th"
    and p: "p = \<lparr>x_coord = py_int (x_of t th), y_coord = py_int (y_of t th)\<rparr>"
    by blast
  have d: "dot_position (radar_widget (process_message win obj)) = p"
    by (simp add: process_message_Some[OF assms] update_radar_data_def)
  have "x_coord p = py_int (x_of t th)" "y_coord p = py_int (y_of t th)"
    by (simp_all add: p)
  then have "x_coord p = py_int (x_of t th) \<and> y_coord p = py_int (y_of t th) \<and>
           \<bar>real_of_int (x_coord p) - x_of t th\<bar> < 1 \<and>
           \<bar>real_of_int (y_coord p) - y_of t th\<bar> < 1 \<and>
           \<bar>real_of_int (x_coord p)\<bar> \<le> \<bar>x_of t th\<bar> \<and>
           \<bar>real_of_int (y_coord p)\<bar> \<le> \<bar>y_of t th\<bar>"
    by (simp add: py_int_close py_int_towards_zero)
  with h d show ?thesis by blast
qed

theorem published_coordinates_truncated_witness:
  "radar_update scenario_A = Inr (Some (JInt 0, \<lparr>x_coord = 262, y_coord = 150\<rparr>)) \<and>
   (\<exists>t th. (262::int) = py_int (x_of t th) \<and> (150::int) = py_int (y_of t th) \<and>
      \<bar>262 - x_of t th\<bar> < 1 \<and> \<bar>150 - y_of t th\<bar> < 1) \<and>
   dot_position (radar_widget (process_message RadarWindow_init scenario_A)) =
     \<lparr>x_coord = 262, y_coord = 150\<rparr>"
proof -
  have a: "radar_update scenario_A = Inr (Some (JInt 0, \<lparr>x_coord = 262, y_coord = 150\<rparr>))"
    by (rule radar_update_A)
  from published_coordinates_truncated[OF a, of RadarWindow_init] a
  show ?thesis by (simp; blast)
qed

subsection \<open>The marker stays visible\<close>

text \<open>
  Claim C10. After a valid scan report with at least one echo has been processed the
  flag \<open>dot_visible\<close> is true, and no later signal delivered to the window (a report
  without echoes, a message whose processing raises, a change of connection status)
  sets it back to false.
\<close>

theorem dot_stays_visible:
  "(valid_report obj \<and> dict_get obj ''echoResponses'' \<noteq> JArray [] \<longrightarrow>
      dot_visible (radar_widget (process_message win obj)) \<and>
      dot_visible (radar_widget (foldl deliver (process_message win obj) acts))) \<and>
   (dot_visible (radar_widget win) \<longrightarrow>
      dot_visible (radar_widget (deliver win act)) \<and>
      dot_visible (radar_widget (foldl deliver win acts)))"
proof (intro conjI impI)
  assume "valid_report obj \<and> dict_get obj ''echoResponses'' \<noteq> JArray []"
  then obtain a p where "radar_update obj = Inr (Some (a, p))"
    using valid_report_update by blast
  then show v: "dot_visible (radar_widget (process_message win obj))"
    by (simp add: process_message_Some update_radar_data_def)
  then show "dot_visible (radar_widget (foldl deliver (process_message win obj) acts))"
    by (rule foldl_deliver_visible)
next
  assume v: "dot_visible (radar_widget win)"
  then show "dot_visible (radar_widget (deliver win act))"
    by (rule deliver_visible)
  from v show "dot_visible (radar_widget (foldl deliver win acts))"
    by (rule foldl_deliver_visible)
qed

theorem dot_stays_visible_witness:
  "valid_report scenario_A \<and> dict_get scenario_A ''echoResponses'' \<noteq> JArray [] \<and>
   \<not> dot_visible (radar_widget RadarWindow_init) \<and>
   dot_visible (radar_widget (process_message RadarWindow_init scenario_A)) \<and>
   dot_visible (radar_widget (foldl deliver (process_message RadarWindow_init scenario_A)
     [Emit_message_received scenario_B, Emit_message_received scenario_D,
      Emit_connection_status False, Emit_connection_status True]))"
proof -
  have a: "valid_report scenario_A \<and> dict_get scenario_A ''echoResponses'' \<noteq> JArray []"
    by (simp add: scenario_A_valid scenario_A_echoes)
  have i: "\<not> dot_visible (radar_widget RadarWindow_init)"
    by (simp add: RadarWindow_init_def RadarWidget_init_def)
  show ?thesis
    using a i dot_stays_visible[of scenario_A RadarWindow_init
      "[Emit_message_received scenario_B, Emit_message_received scenario_D,
        Emit_connection_status False, Emit_connection_status True]"]
    by simp
qed

end
